theory Spec2Isabelle
  imports Main "HOL-Library.AList" "HOL-Library.Word"
begin

section \<open>The relay bot of discord-irc (lib/bot.js)\<close>

text \<open>
  The bot relays messages between Discord channels and IRC channels. This theory embeds
  \<^verbatim>\<open>lib/bot.js\<close>: the constructor, \<^verbatim>\<open>parseText\<close>, \<^verbatim>\<open>isCommandMessage\<close>, \<^verbatim>\<open>sendToIRC\<close>,
  \<^verbatim>\<open>sendToDiscord\<close> and the listeners attached by \<^verbatim>\<open>attachListeners\<close>.

  Modelling conventions.
  \<^item> The texts that the bot reads and writes are of type \<^typ>\<open>string\<close>: lists of code units,
    each below 256. The functions on them that depend on the character set
    (\<^verbatim>\<open>toLowerCase\<close>, the classes \<^verbatim>\<open>\s\<close>, \<^verbatim>\<open>\d\<close> and \<^verbatim>\<open>\b\<close> of regular expressions) are
    given on that range. The nick color is defined on every JavaScript string: a list of
    UTF-16 code units, each a word of 16 bits.
  \<^item> A JavaScript object used as a dictionary is an association list in the order in
    which its keys were created; a lookup \<^verbatim>\<open>obj[key]\<close> is \<^term>\<open>map_of obj key\<close>, where
    \<^term>\<open>None\<close> is \<^verbatim>\<open>undefined\<close>, and an assignment \<^verbatim>\<open>obj[key] = v\<close> is
    \<^term>\<open>AList.update key v obj\<close>. The keys and values of the configuration are channel
    names, not names of members of \<^verbatim>\<open>Object.prototype\<close>. A lookup under a name that comes
    from the network can hit such a member: the invite listener, which acts on the
    truthiness of the lookup alone, is modelled with the inherited members. In
    \<^verbatim>\<open>sendToDiscord\<close> the value found under such a name has no \<^verbatim>\<open>slice\<close>, so that line 245
    throws before any effect: the list of effects is empty, as it is without an entry.
  \<^item> A value tested for truthiness (\<^verbatim>\<open>if (x)\<close>, \<^verbatim>\<open>!x\<close>) is a string or \<^verbatim>\<open>undefined\<close>;
    \<^verbatim>\<open>undefined\<close> and the empty string are falsy.
  \<^item> Calls into the two client libraries and into the logger are effects, collected in
    the order in which the code performs them. A thrown exception is a value of type
    \<open>error\<close>.
\<close>

subsection \<open>Strings\<close>

abbreviation LF :: char where "LF \<equiv> CHR 0x0A"
abbreviation CR :: char where "CR \<equiv> CHR 0x0D"
abbreviation SP :: char where "SP \<equiv> CHR 0x20"

text \<open>\<^verbatim>\<open>charCodeAt\<close> of a code unit.\<close>

definition charCode :: "char \<Rightarrow> nat" where
  "charCode c = of_char c"

text \<open>\<^verbatim>\<open>String.prototype.toLowerCase\<close>: the letters A to Z and the upper-case letters of
  Latin-1 (U+00C0 to U+00DE without the multiplication sign U+00D7) move up by 32.\<close>

definition lowerChar :: "char \<Rightarrow> char" where
  "lowerChar c =
     (let n = charCode c
      in if (65 \<le> n \<and> n \<le> 90) \<or> (192 \<le> n \<and> n \<le> 222 \<and> n \<noteq> 215)
         then char_of (n + 32) else c)"

definition toLowerCase :: "string \<Rightarrow> string" where
  "toLowerCase s = map lowerChar s"

text \<open>\<^verbatim>\<open>s.startsWith(p)\<close>, used to find the occurrences of a pattern string.\<close>

fun startsWith :: "string \<Rightarrow> string \<Rightarrow> bool" where
  "startsWith s [] = True"
| "startsWith [] (p # ps) = False"
| "startsWith (c # cs) (p # ps) = (c = p \<and> startsWith cs ps)"

text \<open>The first occurrence of the pattern \<open>p\<close> in \<open>s\<close>: the text before it and the text
  after it, or \<^term>\<open>None\<close> when \<open>p\<close> does not occur.\<close>

fun splitAtFirst :: "string \<Rightarrow> string \<Rightarrow> (string \<times> string) option" where
  "splitAtFirst p [] = (if p = [] then Some ([], []) else None)"
| "splitAtFirst p (c # cs) =
     (if startsWith (c # cs) p then Some ([], drop (length p) (c # cs))
      else (case splitAtFirst p cs of
              None \<Rightarrow> None
            | Some (pre, post) \<Rightarrow> Some (c # pre, post)))"

text \<open>The replacement text of \<^verbatim>\<open>String.prototype.replace\<close> when the replacement is a
  string (ECMAScript's GetSubstitution, for a match without capture groups):
  \<^verbatim>\<open>$$\<close> is a dollar sign, \<^verbatim>\<open>$&\<close> the matched text, \<^verbatim>\<open>$`\<close> the text before the match,
  \<^verbatim>\<open>$'\<close> the text after it; every other character stands for itself.\<close>

fun getSubstitution :: "string \<Rightarrow> string \<Rightarrow> string \<Rightarrow> string \<Rightarrow> string" where
  "getSubstitution matched pre post [] = []"
| "getSubstitution matched pre post [c] = [c]"
| "getSubstitution matched pre post (c # d # r) =
     (if c = CHR ''$'' then
        (if d = CHR ''$'' then CHR ''$'' # getSubstitution matched pre post r
         else if d = CHR ''&'' then matched @ getSubstitution matched pre post r
         else if d = CHR 0x60 then pre @ getSubstitution matched pre post r
         else if d = CHR 0x27 then post @ getSubstitution matched pre post r
         else c # getSubstitution matched pre post (d # r))
      else c # getSubstitution matched pre post (d # r))"

text \<open>\<^verbatim>\<open>s.replace(p, r)\<close> for a pattern string \<open>p\<close> and a replacement string \<open>r\<close>: only
  the first occurrence of \<open>p\<close> is replaced.\<close>

definition replaceString :: "string \<Rightarrow> string \<Rightarrow> string \<Rightarrow> string" where
  "replaceString p r s =
     (case splitAtFirst p s of
        None \<Rightarrow> s
      | Some (pre, post) \<Rightarrow> pre @ getSubstitution p pre post r @ post)"

subsection \<open>The Discord client's objects\<close>

record user =
  user_id :: string
  username :: string

record channel =
  channel_id :: string
  channel_name :: string

record attachment =
  url :: string

text \<open>A message as discord.js delivers it. \<open>attachments\<close> is \<^term>\<open>None\<close> when the field is
  absent.\<close>

record message =
  author :: user
  msg_channel :: channel
  content :: string
  mentions :: "user list"
  attachments :: "attachment list option"

text \<open>What the bot reads of \<^verbatim>\<open>this.discord\<close>: the logged-in user and the two caches.\<close>

record discord_client =
  client_user :: user
  client_channels :: "channel list"
  client_users :: "user list"

text \<open>\<^verbatim>\<open>cache.get(key, value)\<close> of discord.js: the first item whose field \<open>key\<close> equals
  \<open>value\<close>; \<^term>\<open>None\<close> is the \<^verbatim>\<open>null\<close> it returns when there is none.\<close>

definition cache_get :: "('a \<Rightarrow> string) \<Rightarrow> 'a list \<Rightarrow> string \<Rightarrow> 'a option" where
  "cache_get key items v = find (\<lambda>item. key item = v) items"

text \<open>\<^verbatim>\<open>user.mention()\<close> of discord.js.\<close>

definition mention :: "user \<Rightarrow> string" where
  "mention u = ''<@'' @ user_id u @ ''>''"

subsection \<open>Errors and effects\<close>

datatype error = ConfigurationError string | TypeError

datatype loglevel = Debug | Info | Error

datatype logarg = Str string | Strs "string list" | Undefined | Opaque

fun optArg :: "string option \<Rightarrow> logarg" where
  "optArg None = Undefined"
| "optArg (Some s) = Str s"

text \<open>The calls the bot makes on its collaborators: \<^verbatim>\<open>logger.debug/info/error\<close>,
  \<^verbatim>\<open>ircClient.say\<close>, \<^verbatim>\<open>ircClient.send\<close>, \<^verbatim>\<open>ircClient.join\<close> and
  \<^verbatim>\<open>discord.sendMessage\<close>.\<close>

datatype effect =
    Log loglevel string "logarg list"
  | IrcSay string string
  | IrcSend "string list"
  | IrcJoin string
  | DiscordSendMessage channel string

fun isLog :: "effect \<Rightarrow> bool" where
  "isLog (Log l m args) = True"
| "isLog e = False"

text \<open>The outbound calls among a list of effects, and its log entries.\<close>

definition outbound :: "effect list \<Rightarrow> effect list" where
  "outbound es = filter (\<lambda>e. \<not> isLog e) es"

definition logEntries :: "effect list \<Rightarrow> effect list" where
  "logEntries es = filter isLog es"

subsection \<open>The bot\<close>

text \<open>The fields the constructor sets. \<open>discord\<close> is the client object; \<open>irc_colors_wrap\<close>
  is \<^verbatim>\<open>irc.colors.wrap\<close> of the imported irc module, applied to a color name
  (\<^term>\<open>None\<close> for \<^verbatim>\<open>undefined\<close>) and a text.\<close>

record bot =
  discord :: discord_client
  irc_colors_wrap :: "string option \<Rightarrow> string \<Rightarrow> string"
  server :: string
  nickname :: string
  discordToken :: string
  commandCharacters :: "string list"
  ircNickColor :: bool
  channels :: "string list"
  relayChannelJoins :: bool
  relayChannelParts :: bool
  relayChannelQuits :: bool
  relayChannelNames :: bool
  channelMapping :: "(string \<times> string) list"
  invertedMapping :: "(string \<times> string) list"
  autoSendCommands :: "string list list"

definition NICK_COLORS :: "string list" where
  "NICK_COLORS = [''light_blue'', ''dark_blue'', ''light_red'', ''dark_red'', ''light_green'',
     ''dark_green'', ''magenta'', ''light_magenta'', ''orange'', ''yellow'', ''cyan'',
     ''light_cyan'']"

subsection \<open>parseText\<close>

text \<open>Lines 169 to 172: for each mentioned user in turn, the two \<^verbatim>\<open>replace\<close> calls with
  a pattern string.\<close>

definition replaceMention :: "string \<Rightarrow> user \<Rightarrow> string" where
  "replaceMention text m =
     replaceString (''<@!'' @ user_id m @ ''>'') (''@'' @ username m)
       (replaceString (''<@'' @ user_id m @ ''>'') (''@'' @ username m) text)"

definition replaceMentions :: "user list \<Rightarrow> string \<Rightarrow> string" where
  "replaceMentions ms text = foldl replaceMention text ms"

text \<open>Line 175: \<^verbatim>\<open>replace(/\n|\r\n|\r/g, ' ')\<close>. At each position the alternatives are tried
  in the order written; a match is replaced by one space and the scan goes on after
  it.\<close>

fun foldLines :: "string \<Rightarrow> string" where
  "foldLines [] = []"
| "foldLines (c # cs) =
     (if c = LF then SP # foldLines cs
      else if c = CR then
        (case cs of
           [] \<Rightarrow> [SP]
         | d # ds \<Rightarrow> if d = LF then SP # foldLines ds else SP # foldLines cs)
      else c # foldLines cs)"

text \<open>The class \<^verbatim>\<open>\d\<close>.\<close>

definition isDigit :: "char \<Rightarrow> bool" where
  "isDigit c = (48 \<le> charCode c \<and> charCode c \<le> 57)"

text \<open>\<^verbatim>\<open>/<#(\d+)>/\<close> anchored at the head of a text: the captured digits, when the text
  starts with a channel reference.\<close>

definition channelRefMatch :: "string \<Rightarrow> string option" where
  "channelRefMatch s =
     (case s of
        a # b # rest \<Rightarrow>
          (let digits = takeWhile isDigit rest
           in if a = CHR ''<'' \<and> b = CHR ''#'' \<and> digits \<noteq> []
                 \<and> startsWith (drop (length digits) rest) ''>''
              then Some digits else None)
      | _ \<Rightarrow> None)"

text \<open>Lines 176 to 179: every channel reference is replaced by what the callback returns.
  The callback reads \<^verbatim>\<open>channel.name\<close> of the result of \<^verbatim>\<open>channels.get\<close>, which throws a
  TypeError when there is no such channel; the exception leaves \<^verbatim>\<open>replace\<close> and
  \<^verbatim>\<open>parseText\<close>.\<close>

function expandChannelRefs :: "channel list \<Rightarrow> string \<Rightarrow> error + string" where
  "expandChannelRefs chans [] = Inr []"
| "expandChannelRefs chans (c # cs) =
     (case channelRefMatch (c # cs) of
        None \<Rightarrow>
          (case expandChannelRefs chans cs of
             Inl e \<Rightarrow> Inl e
           | Inr out \<Rightarrow> Inr (c # out))
      | Some channelId \<Rightarrow>
          (case cache_get channel_id chans channelId of
             None \<Rightarrow> Inl TypeError
           | Some ch \<Rightarrow>
               (case expandChannelRefs chans (drop (length channelId + 2) cs) of
                  Inl e \<Rightarrow> Inl e
                | Inr out \<Rightarrow> Inr (''#'' @ channel_name ch @ out))))"
  by pat_completeness auto
termination
  by (relation "measure (\<lambda>(chans, s). length s)") auto

definition parseText :: "bot \<Rightarrow> message \<Rightarrow> error + string" where
  "parseText b m =
     expandChannelRefs (client_channels (discord b))
       (foldLines (replaceMentions (mentions m) (content m)))"

subsection \<open>isCommandMessage\<close>

text \<open>\<^verbatim>\<open>commandCharacters.indexOf(message[0]) !== -1\<close>: \<^verbatim>\<open>message[0]\<close> is the string of the
  first code unit, or \<^verbatim>\<open>undefined\<close> for the empty text, which no element equals.\<close>

definition isCommandMessage :: "bot \<Rightarrow> string \<Rightarrow> bool" where
  "isCommandMessage b text =
     (case text of [] \<Rightarrow> False | c # cs \<Rightarrow> [c] \<in> set (commandCharacters b))"

subsection \<open>The nick color\<close>

text \<open>A JavaScript string as it is: the list of its UTF-16 code units. \<^verbatim>\<open>length\<close> is the
  number of code units, and \<^verbatim>\<open>charCodeAt(i)\<close> is the code unit at \<open>i\<close>.\<close>

type_synonym utf16 = "16 word list"

text \<open>The code units of a text whose code units are all below 256.\<close>

definition codeUnits :: "string \<Rightarrow> utf16" where
  "codeUnits s = map of_char s"

text \<open>Line 200: \<^verbatim>\<open>(username.charCodeAt(0) + username.length) % NICK_COLORS.length\<close>.
  \<^verbatim>\<open>charCodeAt(0)\<close> of the empty string is NaN, and so is the index then: \<^term>\<open>None\<close>.\<close>

definition colorIndex :: "utf16 \<Rightarrow> nat option" where
  "colorIndex name =
     (case name of
        [] \<Rightarrow> None
      | u # us \<Rightarrow> Some ((unat u + length name) mod length NICK_COLORS))"

text \<open>\<^verbatim>\<open>NICK_COLORS[colorIndex]\<close>; \<^term>\<open>None\<close> is the \<^verbatim>\<open>undefined\<close> read at NaN.\<close>

definition nickColor :: "utf16 \<Rightarrow> string option" where
  "nickColor name =
     (case colorIndex name of
        None \<Rightarrow> None
      | Some i \<Rightarrow> if i < length NICK_COLORS then Some (NICK_COLORS ! i) else None)"

text \<open>Lines 198 to 202, for a username whose code units are all below 256.\<close>

definition displayUsername :: "bot \<Rightarrow> string \<Rightarrow> string" where
  "displayUsername b name =
     (if ircNickColor b then irc_colors_wrap b (nickColor (codeUnits name)) name else name)"

text \<open>The spec's formula for the index, in its own words: the code point of the first
  character plus the length of the name, modulo the size of the palette. The characters
  of a JavaScript string are its code points: a high surrogate (D800 to DBFF) followed
  by a low surrogate (DC00 to DFFF) is one character beyond FFFF, every other code unit
  is a character of its own.\<close>

definition isHighSurrogate :: "16 word \<Rightarrow> bool" where
  "isHighSurrogate u = (0xD800 \<le> unat u \<and> unat u \<le> 0xDBFF)"

definition isLowSurrogate :: "16 word \<Rightarrow> bool" where
  "isLowSurrogate u = (0xDC00 \<le> unat u \<and> unat u \<le> 0xDFFF)"

fun codePoints :: "utf16 \<Rightarrow> nat list" where
  "codePoints [] = []"
| "codePoints [u] = [unat u]"
| "codePoints (u # v # r) =
     (if isHighSurrogate u \<and> isLowSurrogate v
      then (0x10000 + (unat u - 0xD800) * 0x400 + (unat v - 0xDC00)) # codePoints r
      else unat u # codePoints (v # r))"

definition spec_colorIndex :: "utf16 \<Rightarrow> nat option" where
  "spec_colorIndex name =
     (case codePoints name of
        [] \<Rightarrow> None
      | p # ps \<Rightarrow> Some ((p + length (codePoints name)) mod length NICK_COLORS))"

subsection \<open>sendToDiscord\<close>

text \<open>The class \<^verbatim>\<open>\s\<close> (tab, line feed, vertical tab, form feed, carriage return, space,
  no-break space) and the word characters of \<^verbatim>\<open>\b\<close>.\<close>

definition isSpace :: "char \<Rightarrow> bool" where
  "isSpace c = (charCode c \<in> {9, 10, 11, 12, 13, 32, 160})"

definition isWordChar :: "char \<Rightarrow> bool" where
  "isWordChar c =
     (let n = charCode c
      in (48 \<le> n \<and> n \<le> 57) \<or> (65 \<le> n \<and> n \<le> 90) \<or> n = 95 \<or> (97 \<le> n \<and> n \<le> 122))"

definition isWordAt :: "string \<Rightarrow> nat \<Rightarrow> bool" where
  "isWordAt s i = (i < length s \<and> isWordChar (s ! i))"

text \<open>\<^verbatim>\<open>\b\<close> after the first \<open>k\<close> code units of \<open>s\<close>, for \<open>k\<close> at least 1.\<close>

definition wordBoundaryAfter :: "string \<Rightarrow> nat \<Rightarrow> bool" where
  "wordBoundaryAfter s k = (isWordAt s (k - 1) \<noteq> isWordAt s k)"

text \<open>\<^verbatim>\<open>/@[^\s]+\b/\<close> anchored at the head of a text: the number of code units matched
  after the \<^verbatim>\<open>@\<close>. \<^verbatim>\<open>[^\s]+\<close> takes the longest run first and gives code units back
  until a word boundary follows.\<close>

definition mentionMatch :: "string \<Rightarrow> nat option" where
  "mentionMatch s =
     (case s of
        [] \<Rightarrow> None
      | c # rest \<Rightarrow>
          if c = CHR ''@'' then
            find (wordBoundaryAfter rest)
              (rev [1 ..< Suc (length (takeWhile (\<lambda>x. \<not> isSpace x) rest))])
          else None)"

text \<open>Lines 253 to 256: every match is replaced by the mention of the user of that name,
  or left as it is when the user cache has none.\<close>

function replaceNames :: "user list \<Rightarrow> string \<Rightarrow> string" where
  "replaceNames users [] = []"
| "replaceNames users (c # cs) =
     (case mentionMatch (c # cs) of
        None \<Rightarrow> c # replaceNames users cs
      | Some k \<Rightarrow>
          (case cache_get username users (take k cs) of
             None \<Rightarrow> c # take k cs
           | Some u \<Rightarrow> mention u)
          @ replaceNames users (drop k cs))"
  by pat_completeness auto
termination
  by (relation "measure (\<lambda>(users, s). length s)") auto

text \<open>Lines 241 to 263, with \<open>sender\<close> for the parameter \<^verbatim>\<open>author\<close>. The result is the
  list of effects.\<close>

definition sendToDiscord :: "bot \<Rightarrow> string \<Rightarrow> string \<Rightarrow> string \<Rightarrow> effect list" where
  "sendToDiscord b sender channel text =
     (case map_of (invertedMapping b) (toLowerCase channel) of
        None \<Rightarrow> []
      | Some discordChannelName \<Rightarrow>
          if discordChannelName = [] then []
          else
            (case cache_get channel_name (client_channels (discord b)) (tl discordChannelName) of
               None \<Rightarrow>
                 [Log Info ''Tried to send a message to a channel the bot isn't in: ''
                    [Str discordChannelName]]
             | Some discordChannel \<Rightarrow>
                 (let withMentions = replaceNames (client_users (discord b)) text;
                      withAuthor = ''**<'' @ sender @ ''>** '' @ withMentions
                  in [Log Debug ''Sending message to Discord''
                        [Str withAuthor, Str channel, Str ''->'', Str discordChannelName],
                      DiscordSendMessage discordChannel withAuthor])))"

subsection \<open>sendToIRC\<close>

text \<open>Lines 230 to 236: one line per attachment.\<close>

definition sendAttachments :: "string \<Rightarrow> string \<Rightarrow> attachment list option \<Rightarrow> effect list" where
  "sendAttachments ircChannel displayName atts =
     (case atts of
        None \<Rightarrow> []
      | Some as \<Rightarrow>
          concat (map (\<lambda>a.
            [Log Debug ''Sending attachment URL to IRC''
               [Str ircChannel, Str (''<'' @ displayName @ ''> '' @ url a)],
             IrcSay ircChannel (''<'' @ displayName @ ''> '' @ url a)]) as))"

text \<open>Lines 186 to 239. The result is the list of effects performed and the exception
  thrown, if any (the one of \<^verbatim>\<open>parseText\<close>).\<close>

definition sendToIRC :: "bot \<Rightarrow> message \<Rightarrow> effect list \<times> error option" where
  "sendToIRC b m =
     (if user_id (author m) = user_id (client_user (discord b)) then ([], None)
      else
        (let channelName = ''#'' @ channel_name (msg_channel m);
             mapped = map_of (channelMapping b) channelName;
             logged = [Log Debug ''Channel Mapping'' [Str channelName, optArg mapped]]
         in case mapped of
              None \<Rightarrow> (logged, None)
            | Some ircChannel \<Rightarrow>
                if ircChannel = [] then (logged, None)
                else
                  (case parseText b m of
                     Inl e \<Rightarrow> (logged, Some e)
                   | Inr text \<Rightarrow>
                       if isCommandMessage b text then
                         (let command = tl text
                          in if command = ''names'' then
                               (logged @
                                [Log Debug ''Sending raw command to IRC''
                                   [Str (''NAMES '' @ ircChannel)],
                                 IrcSend [''NAMES'', ircChannel]], None)
                             else if command = ''help'' then
                               (logged @
                                sendToDiscord b ''Relay/Help'' ircChannel
                                  ''Type .names to list users in this channel'', None)
                             else
                               (logged @
                                [IrcSay ircChannel
                                   (''Command sent from Discord by '' @ username (author m) @ '':''),
                                 IrcSay ircChannel text], None))
                       else
                         (logged @
                          (if text \<noteq> [] then
                             [Log Debug ''Sending message to IRC''
                                [Str ircChannel,
                                 Str (''<'' @ displayUsername b (username (author m)) @ ''> '' @ text)],
                              IrcSay ircChannel
                                (''<'' @ displayUsername b (username (author m)) @ ''> '' @ text)]
                           else []) @
                          sendAttachments ircChannel (displayUsername b (username (author m)))
                            (attachments m), None))))"

subsection \<open>The listeners of attachListeners\<close>

text \<open>The events of the two clients that the bot listens to, with the arguments the
  listeners read. A reason is \<^term>\<open>None\<close> when it is \<^verbatim>\<open>null\<close> or \<^verbatim>\<open>undefined\<close>; the
  nicks of a names event are the keys of the object it carries.\<close>

datatype event =
    DiscordReady
  | DiscordError
  | DiscordMessage message
  | IrcRegistered
  | IrcError
  | IrcMessage string string string
  | IrcNotice string string string
  | IrcAction string string string
  | IrcInvite string string
  | IrcJoined string string
  | IrcPart string string "string option"
  | IrcKick string string string "string option"
  | IrcQuit string "string option" "string list"
  | IrcKill string "string option" "string list"
  | IrcNames string "string list"

text \<open>\<^verbatim>\<open>reason == null ? '' : reason\<close>.\<close>

fun reasonText :: "string option \<Rightarrow> string" where
  "reasonText None = []"
| "reasonText (Some r) = r"

text \<open>\<^verbatim>\<open>Array.prototype.join(' ')\<close>.\<close>

fun joinWords :: "string list \<Rightarrow> string" where
  "joinWords [] = []"
| "joinWords [w] = w"
| "joinWords (w # v # ws) = w @ '' '' @ joinWords (v # ws)"

text \<open>The names of the members of \<^verbatim>\<open>Object.prototype\<close>, which every plain object
  inherits. Each of them holds a function or an object, so each is truthy.\<close>

definition objectPrototypeMembers :: "string list" where
  "objectPrototypeMembers =
     [''constructor'', ''__defineGetter__'', ''__defineSetter__'', ''hasOwnProperty'',
      ''__lookupGetter__'', ''__lookupSetter__'', ''isPrototypeOf'',
      ''propertyIsEnumerable'', ''toString'', ''valueOf'', ''__proto__'',
      ''toLocaleString'']"

text \<open>The truthiness of \<^verbatim>\<open>obj[key]\<close> for a plain object whose own properties hold
  strings: an own property counts when its string is not empty; without an own property
  the lookup goes to \<^verbatim>\<open>Object.prototype\<close>.\<close>

definition truthyAt :: "(string \<times> string) list \<Rightarrow> string \<Rightarrow> bool" where
  "truthyAt obj key =
     (case map_of obj key of
        Some v \<Rightarrow> v \<noteq> []
      | None \<Rightarrow> key \<in> set objectPrototypeMembers)"

text \<open>Lines 106 to 114.\<close>

definition onInvite :: "bot \<Rightarrow> string \<Rightarrow> string \<Rightarrow> effect list" where
  "onInvite b channel inviter =
     Log Debug ''Received invite:'' [Str channel, Str inviter] #
     (if \<not> truthyAt (invertedMapping b) channel
      then [Log Debug ''Channel not found in config, not joining:'' [Str channel]]
      else [IrcJoin channel, Log Debug ''Joining channel:'' [Str channel]])"

text \<open>Lines 139 to 147.\<close>

definition onQuit :: "bot \<Rightarrow> string \<Rightarrow> string option \<Rightarrow> string list \<Rightarrow> effect list" where
  "onQuit b nick reason chans =
     Log Debug ''Channel quit'' [Strs chans, Str nick, optArg reason] #
     (if relayChannelQuits b then
        concat (map (\<lambda>chan.
          sendToDiscord b (chan @ ''/quit'') chan (nick @ '' quit: '' @ reasonText reason)) chans)
      else [])"

text \<open>Lines 149 to 157.\<close>

definition onKill :: "bot \<Rightarrow> string \<Rightarrow> string option \<Rightarrow> string list \<Rightarrow> effect list" where
  "onKill b nick reason chans =
     Log Debug ''Channel kill'' [Strs chans, Str nick, optArg reason] #
     (if relayChannelQuits b then
        concat (map (\<lambda>chan.
          sendToDiscord b (chan @ ''/kill'') chan (nick @ '' killed: '' @ reasonText reason)) chans)
      else [])"

text \<open>Lines 72 to 165: what the listener of each event does.\<close>

fun listener :: "bot \<Rightarrow> event \<Rightarrow> effect list \<times> error option" where
  "listener b DiscordReady = ([Log Debug ''Connected to Discord'' []], None)"
| "listener b DiscordError = ([Log Error ''Received error event from Discord'' [Opaque]], None)"
| "listener b (DiscordMessage m) = sendToIRC b m"
| "listener b IrcRegistered =
     (Log Debug ''Registered event: '' [Opaque] # map IrcSend (autoSendCommands b), None)"
| "listener b IrcError = ([Log Error ''Received error event from IRC'' [Opaque]], None)"
| "listener b (IrcMessage sender to text) = (sendToDiscord b sender to text, None)"
| "listener b (IrcNotice sender to text) = (sendToDiscord b sender to (''*'' @ text @ ''*''), None)"
| "listener b (IrcAction sender to text) = (sendToDiscord b sender to (''_'' @ text @ ''_''), None)"
| "listener b (IrcInvite channel inviter) = (onInvite b channel inviter, None)"
| "listener b (IrcJoined channel nick) =
     (Log Debug ''Channel join'' [Str channel, Str nick] #
      (if relayChannelJoins b
       then sendToDiscord b (channel @ ''/join'') channel (nick @ '' joined '' @ channel)
       else []), None)"
| "listener b (IrcPart channel nick reason) =
     (Log Debug ''Channel part'' [Str channel, Str nick, optArg reason] #
      (if relayChannelParts b
       then sendToDiscord b (channel @ ''/part'') channel
              (nick @ '' parted '' @ channel @ '': '' @ reasonText reason)
       else []), None)"
| "listener b (IrcKick channel nick by reason) =
     (Log Debug ''Channel kick'' [Str channel, Str nick, optArg reason] #
      (if relayChannelParts b
       then sendToDiscord b (channel @ ''/kick'') channel
              (nick @ '' kicked from '' @ channel @ '' by '' @ by @ '': '' @ reasonText reason)
       else []), None)"
| "listener b (IrcQuit nick reason chans) = (onQuit b nick reason chans, None)"
| "listener b (IrcKill nick reason chans) = (onKill b nick reason chans, None)"
| "listener b (IrcNames channel nicks) =
     (Log Debug ''Channel names'' [Str channel, Strs nicks] #
      (if relayChannelNames b
       then sendToDiscord b channel channel (''Users: '' @ joinWords nicks)
       else []), None)"

subsection \<open>The constructor\<close>







subsection \<open>The Discord channel of a relay\<close>

text \<open>Lines 242 to 245 of \<^verbatim>\<open>sendToDiscord\<close>, on their own: the Discord channel that a
  message for the IRC channel \<open>chan\<close> goes to. There is one when the inverted mapping has
  a non-empty Discord channel name for the lower-cased \<open>chan\<close> and the client's cache has
  a channel of that name without its first character.\<close>

definition discordTarget :: "bot \<Rightarrow> string \<Rightarrow> channel option" where
  "discordTarget b chan =
     (case map_of (invertedMapping b) (toLowerCase chan) of
        None \<Rightarrow> None
      | Some discordChannelName \<Rightarrow>
          if discordChannelName = [] then None
          else cache_get channel_name (client_channels (discord b)) (tl discordChannelName))"

subsection \<open>A configuration for the examples\<close>

text \<open>A stand-in for \<^verbatim>\<open>irc.colors.wrap\<close>: it writes the color name in brackets before the
  text, and returns the text as it is when there is no color.\<close>

definition exampleWrap :: "string option \<Rightarrow> string \<Rightarrow> string" where
  "exampleWrap color text = (case color of None \<Rightarrow> text | Some c \<Rightarrow> ''['' @ c @ '']'' @ text)"

text \<open>The bot is logged in to Discord as user 900; it sees the Discord channel
  \<^verbatim>\<open>general\<close> only, and the user \<^verbatim>\<open>bob\<close>.\<close>

definition exampleClient :: discord_client where
  "exampleClient =
     \<lparr> client_user = \<lparr> user_id = ''900'', username = ''bridge'' \<rparr>,
       client_channels = [\<lparr> channel_id = ''10'', channel_name = ''general'' \<rparr>],
       client_users = [\<lparr> user_id = ''1'', username = ''bob'' \<rparr>] \<rparr>"


text \<open>The bot that the constructor builds from these options.\<close>

definition exampleBot :: bot where
  "exampleBot =
     \<lparr> discord = exampleClient,
       irc_colors_wrap = exampleWrap,
       server = ''irc.example.org'',
       nickname = ''bridge'',
       discordToken = ''token'',
       commandCharacters = [''.''],
       ircNickColor = True,
       channels = [''#Relay secret'', ''#other''],
       relayChannelJoins = False,
       relayChannelParts = False,
       relayChannelQuits = True,
       relayChannelNames = False,
       channelMapping = [(''#general'', ''#relay''), (''#random'', ''#other'')],
       invertedMapping = [(''#relay'', ''#general''), (''#other'', ''#random'')],
       autoSendCommands = [] \<rparr>"



text \<open>A message of the user \<^verbatim>\<open>bob\<close> in the Discord channel \<^verbatim>\<open>general\<close>.\<close>

definition exampleMessage :: "string \<Rightarrow> user list \<Rightarrow> attachment list option \<Rightarrow> message" where
  "exampleMessage body ms atts =
     \<lparr> author = \<lparr> user_id = ''1'', username = ''bob'' \<rparr>,
       msg_channel = \<lparr> channel_id = ''10'', channel_name = ''general'' \<rparr>,
       content = body,
       mentions = ms,
       attachments = atts \<rparr>"

section \<open>Properties\<close>

subsection \<open>Auxiliary facts\<close>

subsubsection \<open>Effects\<close>

lemma outbound_concat: "outbound (concat xss) = concat (map outbound xss)"
  by (induction xss) (simp_all add: outbound_def)

lemma outbound_Log: "outbound (Log l m args # es) = outbound es"
  by (simp add: outbound_def)

lemma outbound_sendToDiscord:
  "outbound (sendToDiscord b sender chan text) =
     (case discordTarget b chan of
        None \<Rightarrow> []
      | Some d \<Rightarrow>
          [DiscordSendMessage d
             (''**<'' @ sender @ ''>** '' @ replaceNames (client_users (discord b)) text)])"
  by (simp add: sendToDiscord_def discordTarget_def outbound_def Let_def split: option.splits)

lemma outbound_sendAttachments:
  "outbound (sendAttachments ircChannel displayName atts) =
     (case atts of
        None \<Rightarrow> []
      | Some as \<Rightarrow> map (\<lambda>a. IrcSay ircChannel (''<'' @ displayName @ ''> '' @ url a)) as)"
proof (cases atts)
  case None
  then show ?thesis by (simp add: sendAttachments_def outbound_def)
next
  case (Some as)
  have "outbound (concat (map (\<lambda>a.
            [Log Debug ''Sending attachment URL to IRC''
               [Str ircChannel, Str (''<'' @ displayName @ ''> '' @ url a)],
             IrcSay ircChannel (''<'' @ displayName @ ''> '' @ url a)]) as))
        = map (\<lambda>a. IrcSay ircChannel (''<'' @ displayName @ ''> '' @ url a)) as"
    by (induction as) (simp_all add: outbound_def)
  with Some show ?thesis by (simp add: sendAttachments_def)
qed

lemma length_concat_optional:
  "length (concat (map (\<lambda>x. case f x of None \<Rightarrow> [] | Some d \<Rightarrow> [g x d]) xs))
     = length (filter (\<lambda>x. f x \<noteq> None) xs)"
  by (induction xs) (auto split: option.splits)

lemma outbound_onQuit:
  "relayChannelQuits b \<Longrightarrow>
   outbound (onQuit b nick reason chans) =
     concat (map (\<lambda>chan.
       case discordTarget b chan of
         None \<Rightarrow> []
       | Some d \<Rightarrow>
           [DiscordSendMessage d
              (''**<'' @ chan @ ''/quit>** '' @
               replaceNames (client_users (discord b)) (nick @ '' quit: '' @ reasonText reason))])
       chans)"
  by (simp add: onQuit_def outbound_Log outbound_concat outbound_sendToDiscord comp_def
      cong: option.case_cong)

lemma outbound_onKill:
  "relayChannelQuits b \<Longrightarrow>
   outbound (onKill b nick reason chans) =
     concat (map (\<lambda>chan.
       case discordTarget b chan of
         None \<Rightarrow> []
       | Some d \<Rightarrow>
           [DiscordSendMessage d
              (''**<'' @ chan @ ''/kill>** '' @
               replaceNames (client_users (discord b)) (nick @ '' killed: '' @ reasonText reason))])
       chans)"
  by (simp add: onKill_def outbound_Log outbound_concat outbound_sendToDiscord comp_def
      cong: option.case_cong)

subsubsection \<open>Line folding\<close>






subsubsection \<open>Channel references\<close>




subsubsection \<open>The mapping tables\<close>












subsubsection \<open>The palette\<close>

lemma length_NICK_COLORS: "length NICK_COLORS = 12"
  by (simp add: NICK_COLORS_def)

text \<open>A code unit below 256 is its own code, and is no surrogate.\<close>

lemma unat_of_char: "unat (of_char c :: 16 word) = of_char c"
proof -
  have "(of_char c :: 16 word) = of_nat (of_char c)"
    by (simp add: of_nat_of_char)
  moreover have "(of_char c :: nat) < 2 ^ 16"
    by (rule less_trans[OF nat_of_char_less_256]) simp
  ultimately show ?thesis
    by (simp add: unat_of_nat)
qed

lemma codeUnits_no_surrogate: "\<forall>x \<in> set (codeUnits s). \<not> isHighSurrogate x"
proof
  fix x
  assume "x \<in> set (codeUnits s)"
  then obtain c where x: "x = of_char c"
    by (auto simp: codeUnits_def)
  have "unat (of_char c :: 16 word) < 256"
    unfolding unat_of_char by (rule nat_of_char_less_256)
  then show "\<not> isHighSurrogate x"
    unfolding x isHighSurrogate_def by simp
qed

text \<open>Without high surrogates every code unit is a character.\<close>

lemma codePoints_plain:
  "\<forall>x \<in> set name. \<not> isHighSurrogate x \<Longrightarrow> codePoints name = map unat name"
  by (induction name rule: codePoints.induct) simp_all

subsubsection \<open>The example configuration\<close>



lemma discordTarget_examples:
  "discordTarget exampleBot ''#Relay'' = Some \<lparr> channel_id = ''10'', channel_name = ''general'' \<rparr>"
  "discordTarget exampleBot ''#relay'' = Some \<lparr> channel_id = ''10'', channel_name = ''general'' \<rparr>"
  "discordTarget exampleBot ''#other'' = None"
  by code_simp+

lemma replaceNames_examples:
  "replaceNames (client_users (discord exampleBot)) ''hi'' = ''hi''"
  "replaceNames (client_users (discord exampleBot)) ''bob quit: '' = ''bob quit: ''"
  "replaceNames (client_users (discord exampleBot)) ''bob killed: '' = ''bob killed: ''"
  by code_simp+




lemma char_codes:
  "(of_char (CHR ''b'') :: nat) = 98" "(of_char (CHR ''n'') :: nat) = 110"
  by code_simp+

lemma colorIndex_examples:
  "colorIndex (codeUnits ''bob'') = Some 5"
  "colorIndex (codeUnits ''ned'') = Some 5"
  "nickColor (codeUnits ''bob'') = Some ''dark_green''"
  by (simp_all add: nickColor_def colorIndex_def codeUnits_def unat_of_char char_codes NICK_COLORS_def)

subsection \<open>The channel mapping and its inverse\<close>



subsection \<open>The nick color\<close>

text \<open>
  C8, as the code has it. For a name with first UTF-16 code unit \<open>u\<close>, the index into the
  palette is \<open>u\<close> (what \<^verbatim>\<open>charCodeAt(0)\<close> returns) plus the length of the name in code
  units, modulo the size of the palette, which has 12 colors; the color is the palette's
  element at that index, and it is what \<^verbatim>\<open>sendToIRC\<close> wraps the name in when nick colors
  are on. The color is a function of the name alone, and two names with the same index get
  the same color. The index is the spec's (code point of the first character plus
  length, modulo 12) for every name without a high surrogate, so for every name whose
  code units are below 256.
\<close>

theorem nick_color_assignment:
  "colorIndex (u # us) = Some ((unat u + length (u # us)) mod length NICK_COLORS)
   \<and> length NICK_COLORS = 12
   \<and> nickColor (u # us) = Some (NICK_COLORS ! ((unat u + length (u # us)) mod 12))
   \<and> (colorIndex name1 = colorIndex name2 \<longrightarrow> nickColor name1 = nickColor name2)
   \<and> displayUsername b (c # cs) =
       (if ircNickColor b
        then irc_colors_wrap b (Some (NICK_COLORS ! ((charCode c + length (c # cs)) mod 12))) (c # cs)
        else c # cs)
   \<and> ((\<forall>x \<in> set name. \<not> isHighSurrogate x) \<longrightarrow> spec_colorIndex name = colorIndex name)
   \<and> spec_colorIndex (codeUnits s) = colorIndex (codeUnits s)"
proof -
  have p1: "colorIndex (u # us) = Some ((unat u + length (u # us)) mod length NICK_COLORS)"
    by (simp add: colorIndex_def)
  have p2: "length NICK_COLORS = 12"
    by (rule length_NICK_COLORS)
  have p3: "nickColor (u # us) = Some (NICK_COLORS ! ((unat u + length (u # us)) mod 12))"
    by (simp add: nickColor_def colorIndex_def length_NICK_COLORS)
  have p4: "colorIndex name1 = colorIndex name2 \<longrightarrow> nickColor name1 = nickColor name2"
    by (simp add: nickColor_def)
  have p5: "displayUsername b (c # cs) =
       (if ircNickColor b
        then irc_colors_wrap b (Some (NICK_COLORS ! ((charCode c + length (c # cs)) mod 12))) (c # cs)
        else c # cs)"
    by (simp add: displayUsername_def nickColor_def colorIndex_def codeUnits_def
        length_NICK_COLORS unat_of_char charCode_def)
  have p6: "(\<forall>x \<in> set name. \<not> isHighSurrogate x) \<longrightarrow> spec_colorIndex name = colorIndex name"
  proof
    assume "\<forall>x \<in> set name. \<not> isHighSurrogate x"
    then have "codePoints name = map unat name"
      by (rule codePoints_plain)
    then show "spec_colorIndex name = colorIndex name"
      by (cases name) (simp_all add: spec_colorIndex_def colorIndex_def)
  qed
  have p7: "spec_colorIndex (codeUnits s) = colorIndex (codeUnits s)"
  proof -
    have "codePoints (codeUnits s) = map unat (codeUnits s)"
      using codeUnits_no_surrogate by (rule codePoints_plain)
    then show ?thesis
      by (cases "codeUnits s") (simp_all add: spec_colorIndex_def colorIndex_def)
  qed
  show ?thesis
    by (rule conjI[OF p1 conjI[OF p2 conjI[OF p3 conjI[OF p4 conjI[OF p5 conjI[OF p6 p7]]]]]])
qed

text \<open>The theorem at the names \<^verbatim>\<open>bob\<close> and \<^verbatim>\<open>ned\<close>, which share the index 5.\<close>

theorem nick_color_assignment_witness:
  "colorIndex (codeUnits ''bob'') = Some 5 \<and> colorIndex (codeUnits ''ned'') = Some 5
   \<and> nickColor (codeUnits ''bob'') = Some ''dark_green''
   \<and> nickColor (codeUnits ''ned'') = Some ''dark_green''
   \<and> spec_colorIndex (codeUnits ''bob'') = Some 5"
proof -
  note b = colorIndex_examples(1) and n = colorIndex_examples(2) and c = colorIndex_examples(3)
  note t = nick_color_assignment[of _ _ "codeUnits ''bob''" "codeUnits ''ned''" _ _ _
      "codeUnits ''bob''" _]
  from t b n have "nickColor (codeUnits ''bob'') = nickColor (codeUnits ''ned'')"
    by metis
  moreover from t codeUnits_no_surrogate[of "''bob''"]
  have "spec_colorIndex (codeUnits ''bob'') = colorIndex (codeUnits ''bob'')"
    by blast
  ultimately show ?thesis
    using b n c by simp
qed

text \<open>C8 as stated fails for a name whose first character is beyond FFFF: the name of
  the two characters U+1F600 and \<^verbatim>\<open>a\<close> has three code units, the first of them D83D. The
  code gives the index 4; the code point of the first character gives 6 with the length
  in characters and 7 with the length in code units.\<close>

theorem nick_color_astral_first_character:
  "codePoints [0xD83D, 0xDE00, 0x61] = [0x1F600, 0x61]
   \<and> spec_colorIndex [0xD83D, 0xDE00, 0x61] = Some 6
   \<and> (0x1F600 + length [0xD83D, 0xDE00, 0x61 :: 16 word]) mod length NICK_COLORS = 7
   \<and> colorIndex [0xD83D, 0xDE00, 0x61] = Some 4"
proof -
  have cp: "codePoints [0xD83D, 0xDE00, 0x61] = [0x1F600, 0x61]"
    by (simp add: isHighSurrogate_def isLowSurrogate_def)
  have sp: "spec_colorIndex [0xD83D, 0xDE00, 0x61] = Some 6"
    unfolding spec_colorIndex_def cp by (simp add: length_NICK_COLORS)
  have un: "(0x1F600 + length [0xD83D, 0xDE00, 0x61 :: 16 word]) mod length NICK_COLORS = 7"
    by (simp add: length_NICK_COLORS)
  have co: "colorIndex [0xD83D, 0xDE00, 0x61] = Some 4"
    by (simp add: colorIndex_def length_NICK_COLORS)
  show ?thesis
    by (rule conjI[OF cp conjI[OF sp conjI[OF un co]]])
qed

subsection \<open>Invites\<close>




subsection \<open>Messages with an empty text\<close>

text \<open>
  C9. A Discord message for which \<^verbatim>\<open>parseText\<close> returns the empty text and which has no
  attachments has no outbound call in \<^verbatim>\<open>sendToIRC\<close>, whether its channel is mapped or not.
  If the message is not written by the bot itself and its channel is mapped to the IRC
  channel \<open>ircChannel\<close>, then the empty text is not a command, \<^verbatim>\<open>sendToIRC\<close> throws nothing,
  and its outbound calls are exactly one \<^verbatim>\<open>say\<close> per attachment, in order, each with the
  author prefix before the URL.
\<close>

theorem sendToIRC_empty_text:
  "(parseText b m = Inr [] \<and> (attachments m = None \<or> attachments m = Some [])
      \<longrightarrow> outbound (fst (sendToIRC b m)) = [])
   \<and> (user_id (author m) \<noteq> user_id (client_user (discord b))
        \<and> map_of (channelMapping b) (''#'' @ channel_name (msg_channel m)) = Some ircChannel
        \<and> ircChannel \<noteq> []
        \<and> parseText b m = Inr []
      \<longrightarrow> \<not> isCommandMessage b []
          \<and> snd (sendToIRC b m) = None
          \<and> outbound (fst (sendToIRC b m)) =
              (case attachments m of
                 None \<Rightarrow> []
               | Some as \<Rightarrow>
                   map (\<lambda>a. IrcSay ircChannel
                               (''<'' @ displayUsername b (username (author m)) @ ''> '' @ url a))
                     as))"
proof -
  have nc: "\<not> isCommandMessage b []"
    by (simp add: isCommandMessage_def)
  have mapped: "user_id (author m) \<noteq> user_id (client_user (discord b))
        \<and> map_of (channelMapping b) (''#'' @ channel_name (msg_channel m)) = Some ircChannel
        \<and> ircChannel \<noteq> []
        \<and> parseText b m = Inr []
      \<longrightarrow> \<not> isCommandMessage b []
          \<and> snd (sendToIRC b m) = None
          \<and> outbound (fst (sendToIRC b m)) =
              (case attachments m of
                 None \<Rightarrow> []
               | Some as \<Rightarrow>
                   map (\<lambda>a. IrcSay ircChannel
                               (''<'' @ displayUsername b (username (author m)) @ ''> '' @ url a))
                     as)"
  proof (intro impI, elim conjE)
    assume h: "user_id (author m) \<noteq> user_id (client_user (discord b))"
      "map_of (channelMapping b) (''#'' @ channel_name (msg_channel m)) = Some ircChannel"
      "ircChannel \<noteq> []" "parseText b m = Inr []"
    have eff: "sendToIRC b m =
        ([Log Debug ''Channel Mapping''
            [Str (''#'' @ channel_name (msg_channel m)), Str ircChannel]] @
         sendAttachments ircChannel (displayUsername b (username (author m))) (attachments m),
         None)"
      using h nc by (simp add: sendToIRC_def Let_def)
    have out: "outbound (fst (sendToIRC b m)) =
        outbound (sendAttachments ircChannel (displayUsername b (username (author m)))
                    (attachments m))"
      unfolding eff by (simp add: outbound_def)
    show "\<not> isCommandMessage b []
          \<and> snd (sendToIRC b m) = None
          \<and> outbound (fst (sendToIRC b m)) =
              (case attachments m of
                 None \<Rightarrow> []
               | Some as \<Rightarrow>
                   map (\<lambda>a. IrcSay ircChannel
                               (''<'' @ displayUsername b (username (author m)) @ ''> '' @ url a))
                     as)"
      using nc eff out by (simp add: outbound_sendAttachments)
  qed
  have none: "parseText b m = Inr [] \<and> (attachments m = None \<or> attachments m = Some [])
      \<longrightarrow> outbound (fst (sendToIRC b m)) = []"
  proof (intro impI, elim conjE)
    assume p: "parseText b m = Inr []"
      and a: "attachments m = None \<or> attachments m = Some []"
    from a have s: "\<And>chan name. sendAttachments chan name (attachments m) = []"
      by (auto simp: sendAttachments_def)
    show "outbound (fst (sendToIRC b m)) = []"
      using p nc by (simp add: sendToIRC_def Let_def s outbound_def split: option.splits)
  qed
  show ?thesis
    by (rule conjI[OF none mapped])
qed

text \<open>The theorem at the example bot, for an empty message with two attachments and for
  one without.\<close>

theorem sendToIRC_empty_text_witness:
  "parseText exampleBot
     (exampleMessage [] [] (Some [\<lparr> url = ''http://example.org/a.png'' \<rparr>,
                                  \<lparr> url = ''http://example.org/b.png'' \<rparr>])) = Inr []
   \<and> outbound (fst (sendToIRC exampleBot
       (exampleMessage [] [] (Some [\<lparr> url = ''http://example.org/a.png'' \<rparr>,
                                    \<lparr> url = ''http://example.org/b.png'' \<rparr>])))) =
       [IrcSay ''#relay'' ''<[dark_green]bob> http://example.org/a.png'',
        IrcSay ''#relay'' ''<[dark_green]bob> http://example.org/b.png'']
   \<and> outbound (fst (sendToIRC exampleBot (exampleMessage [] [] None))) = []"
proof -
  let ?as = "Some [\<lparr> url = ''http://example.org/a.png'' \<rparr>,
                   \<lparr> url = ''http://example.org/b.png'' \<rparr>]"
  have a: "\<And>atts. user_id (author (exampleMessage [] [] atts))
                   \<noteq> user_id (client_user (discord exampleBot))"
    by (simp add: exampleMessage_def exampleBot_def exampleClient_def)
  have c: "\<And>atts. map_of (channelMapping exampleBot)
        (''#'' @ channel_name (msg_channel (exampleMessage [] [] atts))) = Some ''#relay''"
    by (simp add: exampleMessage_def exampleBot_def)
  have n: "''#relay'' \<noteq> []" by simp
  have p: "\<And>atts. parseText exampleBot (exampleMessage [] [] atts) = Inr []"
    by (simp add: parseText_def exampleMessage_def replaceMentions_def)
  have d: "displayUsername exampleBot ''bob'' = ''[dark_green]bob''"
    by code_simp
  have u: "\<And>atts. username (author (exampleMessage [] [] atts)) = ''bob''"
    by (simp add: exampleMessage_def)
  have t: "\<And>atts. attachments (exampleMessage [] [] atts) = atts"
    by (simp add: exampleMessage_def)
  from sendToIRC_empty_text[of exampleBot "exampleMessage [] [] ?as" "''#relay''"]
    a[of ?as] c[of ?as] n p[of ?as]
  have two: "outbound (fst (sendToIRC exampleBot (exampleMessage [] [] ?as))) =
      (case attachments (exampleMessage [] [] ?as) of
         None \<Rightarrow> []
       | Some as \<Rightarrow>
           map (\<lambda>a. IrcSay ''#relay''
                       (''<'' @ displayUsername exampleBot
                                 (username (author (exampleMessage [] [] ?as))) @ ''> '' @ url a))
             as)"
    by blast
  from sendToIRC_empty_text[of exampleBot "exampleMessage [] [] None" "''#relay''"]
    p[of None] t[of None]
  have zero: "outbound (fst (sendToIRC exampleBot (exampleMessage [] [] None))) = []"
    by blast
  from two zero p[of ?as] show ?thesis
    by (simp add: d u t)
qed

subsection \<open>Line breaks\<close>



subsection \<open>Messages of the bot itself\<close>

text \<open>
  C1, as the code has it. A Discord message whose author has the id of the bot's own
  Discord user has no effect in \<^verbatim>\<open>sendToIRC\<close>: nothing is sent and nothing is logged.
  \<^verbatim>\<open>sendToDiscord\<close> does not look at the author: for every author, the bot's own nickname
  included, its outbound calls are one \<^verbatim>\<open>sendMessage\<close> when the IRC channel has a Discord
  channel to go to, and none otherwise.
\<close>

theorem self_message_filter:
  "(user_id (author m) = user_id (client_user (discord b)) \<longrightarrow> sendToIRC b m = ([], None))
   \<and> outbound (sendToDiscord b sender chan text) =
       (case discordTarget b chan of
          None \<Rightarrow> []
        | Some d \<Rightarrow>
            [DiscordSendMessage d
               (''**<'' @ sender @ ''>** '' @ replaceNames (client_users (discord b)) text)])
   \<and> (discordTarget b chan \<noteq> None \<longrightarrow>
        length (outbound (sendToDiscord b (nickname b) chan text)) = 1)"
  by (auto simp: sendToIRC_def outbound_sendToDiscord)

text \<open>The theorem at the example bot: a Discord message of user 900, and an IRC message
  under the bot's nickname in \<^verbatim>\<open>#Relay\<close>.\<close>

theorem self_message_filter_witness:
  "sendToIRC exampleBot
     (exampleMessage ''hi'' [] None \<lparr> author := client_user (discord exampleBot) \<rparr>) = ([], None)
   \<and> length (outbound (sendToDiscord exampleBot (nickname exampleBot) ''#Relay'' ''hello''))
       = 1"
proof -
  let ?m = "exampleMessage ''hi'' [] None \<lparr> author := client_user (discord exampleBot) \<rparr>"
  have self: "user_id (author ?m) = user_id (client_user (discord exampleBot))"
    by simp
  have target: "discordTarget exampleBot ''#Relay'' \<noteq> None"
    by (simp add: discordTarget_examples)
  from self_message_filter[of ?m exampleBot "nickname exampleBot" "''#Relay''" "''hello''"]
    self target
  show ?thesis by blast
qed

text \<open>C1 as stated fails in the direction from IRC to Discord: a message to \<^verbatim>\<open>#relay\<close>
  whose author is the bot's own nickname \<^verbatim>\<open>bridge\<close> is sent to the Discord channel
  \<^verbatim>\<open>general\<close>.\<close>

theorem self_author_relayed_to_discord:
  "nickname exampleBot = ''bridge''
   \<and> outbound (sendToDiscord exampleBot ''bridge'' ''#relay'' ''hi'') =
       [DiscordSendMessage \<lparr> channel_id = ''10'', channel_name = ''general'' \<rparr> ''**<bridge>** hi'']"
  by (simp add: outbound_sendToDiscord discordTarget_examples replaceNames_examples
      del: replaceNames.simps)
     (simp add: exampleBot_def)

subsection \<open>Channels without a mapping\<close>

text \<open>
  C2, as the code has it. A Discord message, not written by the bot itself, in a channel
  without an entry in \<open>channelMapping\<close> has no outbound call and exactly one log entry,
  the debug line \<^verbatim>\<open>Channel Mapping\<close>. An IRC message to a channel without an entry in
  \<open>invertedMapping\<close> (under its lower-cased name) has no effect: no outbound call and no
  log entry.
\<close>

theorem unmapped_channel_dropped:
  "(user_id (author m) \<noteq> user_id (client_user (discord b))
      \<and> map_of (channelMapping b) (''#'' @ channel_name (msg_channel m)) = None
    \<longrightarrow> sendToIRC b m =
          ([Log Debug ''Channel Mapping''
              [Str (''#'' @ channel_name (msg_channel m)), Undefined]], None)
        \<and> outbound (fst (sendToIRC b m)) = []
        \<and> length (logEntries (fst (sendToIRC b m))) = 1)
   \<and> (map_of (invertedMapping b) (toLowerCase chan) = None
    \<longrightarrow> sendToDiscord b sender chan text = []
        \<and> listener b (IrcMessage sender chan text) = ([], None))"
  by (simp add: sendToIRC_def sendToDiscord_def outbound_def logEntries_def Let_def)

text \<open>The theorem at the example bot: a Discord message in \<^verbatim>\<open>offtopic\<close> and an IRC
  message to \<^verbatim>\<open>#nowhere\<close>.\<close>

theorem unmapped_channel_dropped_witness:
  "sendToIRC exampleBot
     (exampleMessage ''hi'' [] None \<lparr> msg_channel := \<lparr> channel_id = ''11'', channel_name = ''offtopic'' \<rparr> \<rparr>)
     = ([Log Debug ''Channel Mapping'' [Str ''#offtopic'', Undefined]], None)
   \<and> sendToDiscord exampleBot ''alice'' ''#nowhere'' ''hi'' = []"
proof -
  let ?m = "exampleMessage ''hi'' [] None
              \<lparr> msg_channel := \<lparr> channel_id = ''11'', channel_name = ''offtopic'' \<rparr> \<rparr>"
  have a: "user_id (author ?m) \<noteq> user_id (client_user (discord exampleBot))"
    by (simp add: exampleMessage_def exampleBot_def exampleClient_def)
  have c: "map_of (channelMapping exampleBot) (''#'' @ channel_name (msg_channel ?m)) = None"
    by (simp add: exampleBot_def)
  have l: "toLowerCase ''#nowhere'' = ''#nowhere''" by code_simp
  have i: "map_of (invertedMapping exampleBot) (toLowerCase ''#nowhere'') = None"
    unfolding l by (simp add: exampleBot_def)
  from unmapped_channel_dropped[of ?m exampleBot "''#nowhere''" "''alice''" "''hi''"] a c i
  have "sendToIRC exampleBot ?m =
          ([Log Debug ''Channel Mapping''
              [Str (''#'' @ channel_name (msg_channel ?m)), Undefined]], None)
        \<and> sendToDiscord exampleBot ''alice'' ''#nowhere'' ''hi'' = []"
    by blast
  then show ?thesis by simp
qed

text \<open>C2 as stated fails in the direction from IRC to Discord: the message event for the
  channel \<^verbatim>\<open>#lobby\<close>, which has no entry, writes no log entry, not one.\<close>

theorem unmapped_irc_channel_not_logged:
  "map_of (invertedMapping exampleBot) (toLowerCase ''#lobby'') = None
   \<and> listener exampleBot (IrcMessage ''alice'' ''#lobby'' ''hi'') = ([], None)
   \<and> length (logEntries (fst (listener exampleBot (IrcMessage ''alice'' ''#lobby'' ''hi'')))) = 0"
proof -
  have l: "toLowerCase ''#lobby'' = ''#lobby''" by code_simp
  have m: "map_of (invertedMapping exampleBot) (toLowerCase ''#lobby'') = None"
    unfolding l by (simp add: exampleBot_def)
  then have "sendToDiscord exampleBot ''alice'' ''#lobby'' ''hi'' = []"
    by (simp add: sendToDiscord_def)
  with m show ?thesis by (simp add: logEntries_def)
qed

subsection \<open>Quit and kill events\<close>

text \<open>
  C6, as the code has it. When \<open>relayChannelQuits\<close> is on, the outbound calls of a quit
  or kill event are, in the order of the affected channels, one \<^verbatim>\<open>sendMessage\<close> for each
  affected channel that has a Discord channel to go to, and none for the others; so
  their number is the number of such channels. The text is the author
  \<^verbatim>\<open><channel>/quit\<close> or \<^verbatim>\<open><channel>/kill\<close> in bold, then \<^verbatim>\<open><nick> quit: <reason>\<close> or
  \<^verbatim>\<open><nick> killed: <reason>\<close> after the replacement of names; a reason that is null or
  undefined is the empty text, with the same outbound calls as the empty reason.
\<close>

theorem quit_kill_relay:
  assumes "relayChannelQuits b"
  shows "outbound (onQuit b nick reason chans) =
           concat (map (\<lambda>chan.
             case discordTarget b chan of
               None \<Rightarrow> []
             | Some d \<Rightarrow>
                 [DiscordSendMessage d
                    (''**<'' @ chan @ ''/quit>** '' @
                     replaceNames (client_users (discord b))
                       (nick @ '' quit: '' @ (case reason of None \<Rightarrow> [] | Some r \<Rightarrow> r)))])
             chans)
         \<and> outbound (onKill b nick reason chans) =
           concat (map (\<lambda>chan.
             case discordTarget b chan of
               None \<Rightarrow> []
             | Some d \<Rightarrow>
                 [DiscordSendMessage d
                    (''**<'' @ chan @ ''/kill>** '' @
                     replaceNames (client_users (discord b))
                       (nick @ '' killed: '' @ (case reason of None \<Rightarrow> [] | Some r \<Rightarrow> r)))])
             chans)
         \<and> length (outbound (onQuit b nick reason chans))
             = length (filter (\<lambda>chan. discordTarget b chan \<noteq> None) chans)
         \<and> length (outbound (onKill b nick reason chans))
             = length (filter (\<lambda>chan. discordTarget b chan \<noteq> None) chans)
         \<and> outbound (onQuit b nick None chans) = outbound (onQuit b nick (Some []) chans)
         \<and> outbound (onKill b nick None chans) = outbound (onKill b nick (Some []) chans)"
proof -
  have r: "reasonText reason = (case reason of None \<Rightarrow> [] | Some r \<Rightarrow> r)"
    by (cases reason) simp_all
  have q: "outbound (onQuit b nick reason chans) =
           concat (map (\<lambda>chan.
             case discordTarget b chan of
               None \<Rightarrow> []
             | Some d \<Rightarrow>
                 [DiscordSendMessage d
                    (''**<'' @ chan @ ''/quit>** '' @
                     replaceNames (client_users (discord b))
                       (nick @ '' quit: '' @ (case reason of None \<Rightarrow> [] | Some r \<Rightarrow> r)))])
             chans)"
    using outbound_onQuit[OF assms, of nick reason chans] unfolding r .
  have k: "outbound (onKill b nick reason chans) =
           concat (map (\<lambda>chan.
             case discordTarget b chan of
               None \<Rightarrow> []
             | Some d \<Rightarrow>
                 [DiscordSendMessage d
                    (''**<'' @ chan @ ''/kill>** '' @
                     replaceNames (client_users (discord b))
                       (nick @ '' killed: '' @ (case reason of None \<Rightarrow> [] | Some r \<Rightarrow> r)))])
             chans)"
    using outbound_onKill[OF assms, of nick reason chans] unfolding r .
  have lq: "length (outbound (onQuit b nick reason chans))
             = length (filter (\<lambda>chan. discordTarget b chan \<noteq> None) chans)"
    unfolding outbound_onQuit[OF assms] by (rule length_concat_optional)
  have lk: "length (outbound (onKill b nick reason chans))
             = length (filter (\<lambda>chan. discordTarget b chan \<noteq> None) chans)"
    unfolding outbound_onKill[OF assms] by (rule length_concat_optional)
  have nq: "outbound (onQuit b nick None chans) = outbound (onQuit b nick (Some []) chans)"
    unfolding outbound_onQuit[OF assms] by (simp cong: option.case_cong)
  have nk: "outbound (onKill b nick None chans) = outbound (onKill b nick (Some []) chans)"
    unfolding outbound_onKill[OF assms] by (simp cong: option.case_cong)
  show ?thesis
    by (rule conjI[OF q conjI[OF k conjI[OF lq conjI[OF lk conjI[OF nq nk]]]]])
qed

text \<open>The theorem at the example bot: the kill of \<^verbatim>\<open>bob\<close> without a reason, in \<^verbatim>\<open>#relay\<close>.\<close>

theorem quit_kill_relay_witness:
  "relayChannelQuits exampleBot
   \<and> outbound (onKill exampleBot ''bob'' None [''#relay'']) =
       [DiscordSendMessage \<lparr> channel_id = ''10'', channel_name = ''general'' \<rparr>
          ''**<#relay/kill>** bob killed: '']"
proof -
  have q: "relayChannelQuits exampleBot" by (simp add: exampleBot_def)
  from quit_kill_relay[OF q, of "''bob''" None "[''#relay'']"]
  have "outbound (onKill exampleBot ''bob'' None [''#relay'']) =
           concat (map (\<lambda>chan.
             case discordTarget exampleBot chan of
               None \<Rightarrow> []
             | Some d \<Rightarrow>
                 [DiscordSendMessage d
                    (''**<'' @ chan @ ''/kill>** '' @
                     replaceNames (client_users (discord exampleBot))
                       (''bob'' @ '' killed: '' @ (case None of None \<Rightarrow> [] | Some r \<Rightarrow> r)))])
             [''#relay''])"
    by blast
  with q show ?thesis
    by (simp add: discordTarget_examples replaceNames_examples del: replaceNames.simps)
qed

text \<open>C6 as stated fails: \<^verbatim>\<open>bob\<close> quits without a reason from \<^verbatim>\<open>#relay\<close> and \<^verbatim>\<open>#other\<close>,
  which both have an entry in the inverted mapping, but the client has no Discord channel
  \<^verbatim>\<open>random\<close> for \<^verbatim>\<open>#other\<close>. One message is relayed, not two.\<close>

theorem quit_unavailable_channel_not_relayed:
  "relayChannelQuits exampleBot
   \<and> map_of (invertedMapping exampleBot) ''#relay'' = Some ''#general''
   \<and> map_of (invertedMapping exampleBot) ''#other'' = Some ''#random''
   \<and> outbound (onQuit exampleBot ''bob'' None [''#relay'', ''#other'']) =
       [DiscordSendMessage \<lparr> channel_id = ''10'', channel_name = ''general'' \<rparr>
          ''**<#relay/quit>** bob quit: '']"
proof -
  have q: "relayChannelQuits exampleBot" by (simp add: exampleBot_def)
  have m: "map_of (invertedMapping exampleBot) ''#relay'' = Some ''#general''"
    "map_of (invertedMapping exampleBot) ''#other'' = Some ''#random''"
    by (simp_all add: exampleBot_def)
  from q have "outbound (onQuit exampleBot ''bob'' None [''#relay'', ''#other'']) =
       [DiscordSendMessage \<lparr> channel_id = ''10'', channel_name = ''general'' \<rparr>
          ''**<#relay/quit>** bob quit: '']"
    by (simp add: outbound_onQuit discordTarget_examples replaceNames_examples
        del: replaceNames.simps)
  with q m show ?thesis by simp
qed

subsection \<open>Mentions and channel references in parseText\<close>

text \<open>
  C3 at a body that mentions the user 1 twice in the plain syntax: only the first mention
  becomes \<^verbatim>\<open>@bob\<close>, the second stays as it was.
\<close>

theorem parseText_repeated_mention:
  "parseText exampleBot
     (exampleMessage ''<@1> and <@1>'' [\<lparr> user_id = ''1'', username = ''bob'' \<rparr>] None)
     = Inr ''@bob and <@1>''"
  by code_simp

text \<open>
  C4 at a body with a reference to the channel 42, which the client does not know:
  \<^verbatim>\<open>parseText\<close> throws a TypeError, and so does \<^verbatim>\<open>sendToIRC\<close> after its first log entry.
\<close>

theorem parseText_unknown_channel:
  "cache_get channel_id (client_channels (discord exampleBot)) ''42'' = None
   \<and> parseText exampleBot (exampleMessage ''see <#42>'' [] None) = Inl TypeError
   \<and> sendToIRC exampleBot (exampleMessage ''see <#42>'' [] None) =
       ([Log Debug ''Channel Mapping'' [Str ''#general'', Str ''#relay'']], Some TypeError)"
  by code_simp

end
